theory Spec2Isabelle
  imports Complex_Main "HOL-Library.Word" "HOL-Library.List_Lexorder" "HOL-Library.Multiset"
begin

section \<open>JavaScript values\<close>

text \<open>
  The match scorer of \<^verbatim>\<open>src/pages/SwipeMatch.jsx\<close> and the chat identifier of
  \<^verbatim>\<open>src/pages/Chat.jsx\<close> are plain JavaScript functions over documents read from
  the document store. Their arguments are dynamically typed, so the model works on a
  datatype of JavaScript values: the values a stored document holds (\<open>null\<close>,
  booleans, numbers, strings, arrays and maps) and \<open>undefined\<close> for a property that
  is not there. A map is the list of its own properties.

  A string is its sequence of UTF-16 code units; comparison of strings with \<open><\<close> is
  the lexicographic order of the code units.
\<close>

type_synonym jsstring = "16 word list"

text \<open>
  A number is a finite value, one of the two infinities, or NaN. Finite values are
  rationals and arithmetic on them is exact: the rounding of binary64 arithmetic, its
  overflow and underflow, and the sign of zero are not modelled. The special values
  follow IEEE 754, as JavaScript does.
\<close>

datatype jsnum = Fin rat | PosInf | NegInf | NaN

datatype jsval =
    JUndefined
  | JNull
  | JBool bool
  | JNum jsnum
  | JStr jsstring
  | JArr "jsval list"
  | JObj "(string \<times> jsval) list"

text \<open>
  The profiles handed to the scorer are objects. A property that an object does not have
  reads as \<open>undefined\<close>, so a profile is a total function from property names to
  values.
\<close>

type_synonym jsobject = "string \<Rightarrow> jsval"

text \<open>The code units of an ASCII literal of the source.\<close>

definition lit :: "string \<Rightarrow> jsstring" where
  "lit s = map of_char s"

subsection \<open>Arithmetic and the Math functions\<close>

fun js_add :: "jsnum \<Rightarrow> jsnum \<Rightarrow> jsnum" where
  "js_add (Fin a) (Fin b) = Fin (a + b)"
| "js_add NaN _ = NaN"
| "js_add _ NaN = NaN"
| "js_add PosInf NegInf = NaN"
| "js_add NegInf PosInf = NaN"
| "js_add PosInf _ = PosInf"
| "js_add _ PosInf = PosInf"
| "js_add NegInf _ = NegInf"
| "js_add _ NegInf = NegInf"

fun js_sub :: "jsnum \<Rightarrow> jsnum \<Rightarrow> jsnum" where
  "js_sub (Fin a) (Fin b) = Fin (a - b)"
| "js_sub NaN _ = NaN"
| "js_sub _ NaN = NaN"
| "js_sub PosInf PosInf = NaN"
| "js_sub NegInf NegInf = NaN"
| "js_sub PosInf _ = PosInf"
| "js_sub _ NegInf = PosInf"
| "js_sub NegInf _ = NegInf"
| "js_sub _ PosInf = NegInf"

text \<open>The sign of a number that is not NaN: \<open>-1\<close>, \<open>0\<close> or \<open>1\<close>.\<close>

fun js_sign :: "jsnum \<Rightarrow> int" where
  "js_sign (Fin a) = (if a < 0 then -1 else if a = 0 then 0 else 1)"
| "js_sign PosInf = 1"
| "js_sign NegInf = -1"
| "js_sign NaN = 0"

definition signed_inf :: "int \<Rightarrow> jsnum" where
  "signed_inf s = (if s < 0 then NegInf else PosInf)"

fun js_mul :: "jsnum \<Rightarrow> jsnum \<Rightarrow> jsnum" where
  "js_mul (Fin a) (Fin b) = Fin (a * b)"
| "js_mul NaN _ = NaN"
| "js_mul _ NaN = NaN"
| "js_mul x y =
     (if js_sign x = 0 \<or> js_sign y = 0 then NaN else signed_inf (js_sign x * js_sign y))"

text \<open>
  Division. A finite non-zero number divided by zero is an infinity; the model has one
  zero, the positive one.
\<close>

fun js_div :: "jsnum \<Rightarrow> jsnum \<Rightarrow> jsnum" where
  "js_div NaN _ = NaN"
| "js_div _ NaN = NaN"
| "js_div (Fin a) (Fin b) =
     (if b = 0 then (if a = 0 then NaN else signed_inf (js_sign (Fin a))) else Fin (a / b))"
| "js_div (Fin a) _ = Fin 0"
| "js_div x (Fin b) = signed_inf (js_sign x * (if b < 0 then -1 else 1))"
| "js_div _ _ = NaN"

fun Math_abs :: "jsnum \<Rightarrow> jsnum" where
  "Math_abs (Fin a) = Fin \<bar>a\<bar>"
| "Math_abs PosInf = PosInf"
| "Math_abs NegInf = PosInf"
| "Math_abs NaN = NaN"

text \<open>\<open>x <= y\<close> on numbers: false as soon as one side is NaN.\<close>

fun js_le :: "jsnum \<Rightarrow> jsnum \<Rightarrow> bool" where
  "js_le NaN _ = False"
| "js_le _ NaN = False"
| "js_le (Fin a) (Fin b) = (a \<le> b)"
| "js_le NegInf _ = True"
| "js_le _ PosInf = True"
| "js_le _ _ = False"

definition Math_max :: "jsnum \<Rightarrow> jsnum \<Rightarrow> jsnum" where
  "Math_max x y = (if x = NaN \<or> y = NaN then NaN else if js_le x y then y else x)"

definition Math_min :: "jsnum \<Rightarrow> jsnum \<Rightarrow> jsnum" where
  "Math_min x y = (if x = NaN \<or> y = NaN then NaN else if js_le x y then x else y)"

text \<open>\<open>Math.round\<close> rounds to the nearest integer, a tie towards positive infinity.\<close>

fun Math_round :: "jsnum \<Rightarrow> jsnum" where
  "Math_round (Fin a) = Fin (of_int \<lfloor>a + 1 / 2\<rfloor>)"
| "Math_round x = x"

subsection \<open>Truthiness and strings\<close>

fun truthy_num :: "jsnum \<Rightarrow> bool" where
  "truthy_num (Fin a) = (a \<noteq> 0)"
| "truthy_num NaN = False"
| "truthy_num _ = True"

fun truthy :: "jsval \<Rightarrow> bool" where
  "truthy JUndefined = False"
| "truthy JNull = False"
| "truthy (JBool b) = b"
| "truthy (JNum n) = truthy_num n"
| "truthy (JStr s) = (s \<noteq> [])"
| "truthy (JArr xs) = True"
| "truthy (JObj f) = True"

text \<open>\<open>v === 0\<close>.\<close>

fun strictEqualsZero :: "jsval \<Rightarrow> bool" where
  "strictEqualsZero (JNum (Fin a)) = (a = 0)"
| "strictEqualsZero _ = False"

text \<open>
  The code units that \<open>String.prototype.trim\<close> removes: the white space and line
  terminator characters of ECMAScript.
\<close>

definition isWhiteSpace :: "16 word \<Rightarrow> bool" where
  "isWhiteSpace c =
     (c \<in> {0x0009, 0x000A, 0x000B, 0x000C, 0x000D, 0x0020, 0x00A0, 0x1680,
            0x2000, 0x2001, 0x2002, 0x2003, 0x2004, 0x2005, 0x2006, 0x2007,
            0x2008, 0x2009, 0x200A, 0x2028, 0x2029, 0x202F, 0x205F, 0x3000, 0xFEFF})"

definition trim :: "jsstring \<Rightarrow> jsstring" where
  "trim s = rev (dropWhile isWhiteSpace (rev (dropWhile isWhiteSpace s)))"

subsection \<open>Exceptions\<close>

text \<open>
  The conversions \<open>String(v)\<close> and \<open>Number(v)\<close> throw a TypeError on an object that
  cannot be converted to a primitive value. A function that may throw returns
  \<open>Inl TypeError\<close> for the exception and \<open>Inr\<close> of its value otherwise; \<open>andThen\<close>
  runs the next step only when the step before has returned.
\<close>

datatype error = TypeError

fun andThen :: "error + 'a \<Rightarrow> ('a \<Rightarrow> error + 'b) \<Rightarrow> error + 'b" where
  "andThen (Inl e) f = Inl e"
| "andThen (Inr x) f = f x"

fun returns :: "error + 'a \<Rightarrow> bool" where
  "returns (Inl e) = False"
| "returns (Inr x) = True"

text \<open>\<open>xs.map(f)\<close> calls \<open>f\<close> on the elements in order and stops at the first throw.\<close>

fun mapArray :: "('a \<Rightarrow> error + 'b) \<Rightarrow> 'a list \<Rightarrow> error + 'b list" where
  "mapArray f [] = Inr []"
| "mapArray f (x # xs) = andThen (f x) (\<lambda>y. andThen (mapArray f xs) (\<lambda>ys. Inr (y # ys)))"

subsection \<open>Conversions supplied by the engine\<close>

text \<open>
  Three conversions of the language are large tables or grammars of the engine and not
  code of the repository: the value of a numeric string, the decimal text of a number,
  and the Unicode lower-case mapping. They are parameters of the model, so every
  theorem below holds whatever these conversions return.
\<close>

record engine =
  StringToNumber :: "jsstring \<Rightarrow> jsnum"
  NumberToString :: "jsnum \<Rightarrow> jsstring"
  lowerCaseMapping :: "jsstring \<Rightarrow> jsstring"

text \<open>
  \<open>String.prototype.toLowerCase\<close>: the empty string has no character to map; any
  other string goes through the engine's mapping.
\<close>

definition toLowerCase :: "engine \<Rightarrow> jsstring \<Rightarrow> jsstring" where
  "toLowerCase E s = (if s = [] then [] else lowerCaseMapping E s)"

fun join :: "jsstring \<Rightarrow> jsstring list \<Rightarrow> jsstring" where
  "join sep [] = []"
| "join sep [x] = x"
| "join sep (x # y # ys) = x @ sep @ join sep (y # ys)"

definition hasOwnProperty :: "string \<Rightarrow> (string \<times> jsval) list \<Rightarrow> bool" where
  "hasOwnProperty k fs = (k \<in> set (map fst fs))"

text \<open>
  \<open>String(v)\<close>. An array is the texts of its elements joined by commas, where
  \<open>undefined\<close> and \<open>null\<close> elements give the empty text. A map is converted by its
  \<open>toString\<close> method: the inherited one answers \<open>[object Object]\<close>, but an own
  property named \<open>toString\<close> hides it, and since a stored value is never a function
  the conversion finds nothing to call (the inherited \<open>valueOf\<close> returns the map
  itself) and throws a TypeError.
\<close>

fun ToString :: "engine \<Rightarrow> jsval \<Rightarrow> error + jsstring"
  and elementTexts :: "engine \<Rightarrow> jsval list \<Rightarrow> error + jsstring list" where
  "ToString E JUndefined = Inr (lit ''undefined'')"
| "ToString E JNull = Inr (lit ''null'')"
| "ToString E (JBool b) = Inr (if b then lit ''true'' else lit ''false'')"
| "ToString E (JNum n) = Inr (NumberToString E n)"
| "ToString E (JStr s) = Inr s"
| "ToString E (JArr xs) = andThen (elementTexts E xs) (\<lambda>ss. Inr (join (lit '','') ss))"
| "ToString E (JObj fs) =
     (if hasOwnProperty ''toString'' fs then Inl TypeError else Inr (lit ''[object Object]''))"
| "elementTexts E [] = Inr []"
| "elementTexts E (x # xs) =
     andThen (case x of JUndefined \<Rightarrow> Inr [] | JNull \<Rightarrow> Inr [] | _ \<Rightarrow> ToString E x)
       (\<lambda>s. andThen (elementTexts E xs) (\<lambda>ss. Inr (s # ss)))"

text \<open>
  \<open>Number(v)\<close>. An array or a map is converted through its text, and throws where
  that conversion throws.
\<close>

fun ToNumber :: "engine \<Rightarrow> jsval \<Rightarrow> error + jsnum" where
  "ToNumber E JUndefined = Inr NaN"
| "ToNumber E JNull = Inr (Fin 0)"
| "ToNumber E (JBool b) = Inr (if b then Fin 1 else Fin 0)"
| "ToNumber E (JNum n) = Inr n"
| "ToNumber E (JStr s) = Inr (StringToNumber E s)"
| "ToNumber E (JArr xs) = andThen (ToString E (JArr xs)) (\<lambda>s. Inr (StringToNumber E s))"
| "ToNumber E (JObj fs) = andThen (ToString E (JObj fs)) (\<lambda>s. Inr (StringToNumber E s))"

subsection \<open>Array.prototype.sort\<close>

text \<open>
  \<open>xs.sort(cmp)\<close> is a stable sort: \<open>a\<close> is placed after \<open>b\<close> only when
  \<open>cmp(a, b) > 0\<close>, and a comparator result of NaN counts as zero. For a consistent
  comparator every stable sort returns the same array, and the model is the stable
  insertion sort. For a comparator that is not consistent the language leaves the order
  to the engine; the insertion sort is one order an engine may return. An exception of
  the comparator ends the sort.
\<close>

fun js_positive :: "jsnum \<Rightarrow> bool" where
  "js_positive (Fin a) = (0 < a)"
| "js_positive PosInf = True"
| "js_positive _ = False"

fun insert_by :: "('a \<Rightarrow> 'a \<Rightarrow> error + jsnum) \<Rightarrow> 'a \<Rightarrow> 'a list \<Rightarrow> error + 'a list" where
  "insert_by cmp x [] = Inr [x]"
| "insert_by cmp x (y # ys) =
     andThen (cmp x y) (\<lambda>c.
       if js_positive c then andThen (insert_by cmp x ys) (\<lambda>zs. Inr (y # zs))
       else Inr (x # y # ys))"

fun Array_sort :: "('a \<Rightarrow> 'a \<Rightarrow> error + jsnum) \<Rightarrow> 'a list \<Rightarrow> error + 'a list" where
  "Array_sort cmp [] = Inr []"
| "Array_sort cmp (x # xs) = andThen (Array_sort cmp xs) (insert_by cmp x)"

section \<open>The match scorer (SwipeMatch.jsx)\<close>

text \<open>
  \<^verbatim>\<open>
  function toNumber(value) {
    if (!value && value !== 0) return null;
    const n = Number(value);
    if (Number.isNaN(n)) return null;
    return n;
  }
  \<close>
  The result \<open>null\<close> is \<open>None\<close>.
\<close>

definition toNumber :: "engine \<Rightarrow> jsval \<Rightarrow> error + jsnum option" where
  "toNumber E v =
     (if \<not> truthy v \<and> \<not> strictEqualsZero v then Inr None
      else andThen (ToNumber E v) (\<lambda>n. if n = NaN then Inr None else Inr (Some n)))"

text \<open>
  \<^verbatim>\<open>
  function asArrayOfLowercase(value) {
    if (!value) return [];
    if (!Array.isArray(value)) return [];
    return value
      .map((v) => String(v).trim().toLowerCase())
      .filter((v) => v.length > 0);
  }
  \<close>
\<close>

text \<open>The mapped function \<open>(v) => String(v).trim().toLowerCase()\<close>.\<close>

definition normalizeEntry :: "engine \<Rightarrow> jsval \<Rightarrow> error + jsstring" where
  "normalizeEntry E x = andThen (ToString E x) (\<lambda>s. Inr (toLowerCase E (trim s)))"

definition asArrayOfLowercase :: "engine \<Rightarrow> jsval \<Rightarrow> error + jsstring list" where
  "asArrayOfLowercase E v =
     (if \<not> truthy v then Inr []
      else case v of
        JArr xs \<Rightarrow>
          andThen (mapArray (normalizeEntry E) xs) (\<lambda>ss. Inr (filter (\<lambda>s. length s > 0) ss))
      | _ \<Rightarrow> Inr [])"

text \<open>
  The three blocks of \<open>calculateMatchScore\<close>, each giving the amount it adds to
  \<open>score\<close>, or the exception that one of its two conversions throws. A truthy
  \<open>myBudget && theirBudget\<close> means both are numbers other than zero.
\<close>

definition budgetPoints :: "engine \<Rightarrow> jsobject \<Rightarrow> jsobject \<Rightarrow> error + jsnum" where
  "budgetPoints E me other =
     andThen (toNumber E (me ''budget'')) (\<lambda>myBudget.
     andThen (toNumber E (other ''budget'')) (\<lambda>theirBudget.
       Inr (case (myBudget, theirBudget) of
              (Some m, Some t) \<Rightarrow>
                if truthy_num m \<and> truthy_num t then
                  let diff = Math_abs (js_sub m t);
                      maxDiff = js_mul m (Fin (1 / 2));
                      ratio = Math_max (Fin 0) (js_sub (Fin 1) (js_div diff maxDiff))
                  in js_mul ratio (Fin 40)
                else Fin 20
            | _ \<Rightarrow> Fin 20)))"

definition neighborhoodPoints :: "engine \<Rightarrow> jsobject \<Rightarrow> jsobject \<Rightarrow> error + jsnum" where
  "neighborhoodPoints E me other =
     andThen (asArrayOfLowercase E (me ''neighborhoods'')) (\<lambda>myNeighborhoods.
     andThen (asArrayOfLowercase E (other ''neighborhoods'')) (\<lambda>theirNeighborhoods.
       Inr (if length myNeighborhoods > 0 \<and> length theirNeighborhoods > 0 then
              let shared = filter (\<lambda>n. n \<in> set theirNeighborhoods) myNeighborhoods;
                  ratio = Math_min
                    (js_div (Fin (of_nat (length shared)))
                       (Fin (of_nat (length myNeighborhoods))))
                    (Fin 1)
              in js_mul ratio (Fin 35)
            else Fin 18)))"

definition preferencePoints :: "engine \<Rightarrow> jsobject \<Rightarrow> jsobject \<Rightarrow> error + jsnum" where
  "preferencePoints E me other =
     andThen (asArrayOfLowercase E (me ''roommatePreferences'')) (\<lambda>myPrefs.
     andThen (asArrayOfLowercase E (other ''roommatePreferences'')) (\<lambda>theirPrefs.
       Inr (if length myPrefs > 0 \<and> length theirPrefs > 0 then
              let sharedPrefs = filter (\<lambda>p. p \<in> set theirPrefs) myPrefs;
                  ratio = Math_min
                    (js_div (Fin (of_nat (length sharedPrefs))) (Fin (of_nat (length myPrefs))))
                    (Fin 1)
              in js_mul ratio (Fin 25)
            else Fin 12)))"

text \<open>
  The blocks run in the order of the source, so the call throws at the first conversion
  that throws and the later blocks are not reached.
\<close>

definition calculateMatchScore :: "engine \<Rightarrow> jsobject \<Rightarrow> jsobject \<Rightarrow> error + jsnum" where
  "calculateMatchScore E me other =
     andThen (budgetPoints E me other) (\<lambda>budget.
     andThen (neighborhoodPoints E me other) (\<lambda>neighborhoods.
     andThen (preferencePoints E me other) (\<lambda>prefs.
       let score = Fin 0;
           score = js_add score budget;
           score = js_add score neighborhoods;
           score = js_add score prefs
       in Inr (Math_max (Fin 0) (Math_min (Fin 100) (Math_round score))))))"

text \<open>
  \<^verbatim>\<open>
  function rankProfilesWithMatchScore(myProfile, others) {
    return others
      .map((p) => ({ ...p, matchScore: calculateMatchScore(myProfile, p) }))
      .sort((a, b) => b.matchScore - a.matchScore);
  }
  \<close>
\<close>

definition withMatchScore :: "engine \<Rightarrow> jsobject \<Rightarrow> jsobject \<Rightarrow> error + jsobject" where
  "withMatchScore E myProfile p =
     andThen (calculateMatchScore E myProfile p) (\<lambda>s. Inr (p(''matchScore'' := JNum s)))"

definition byMatchScore :: "engine \<Rightarrow> jsobject \<Rightarrow> jsobject \<Rightarrow> error + jsnum" where
  "byMatchScore E a b =
     andThen (ToNumber E (b ''matchScore'')) (\<lambda>y.
     andThen (ToNumber E (a ''matchScore'')) (\<lambda>x. Inr (js_sub y x)))"

definition rankProfilesWithMatchScore ::
    "engine \<Rightarrow> jsobject \<Rightarrow> jsobject list \<Rightarrow> error + jsobject list" where
  "rankProfilesWithMatchScore E myProfile others =
     andThen (mapArray (withMatchScore E myProfile) others) (Array_sort (byMatchScore E))"

section \<open>The chat identifier (Chat.jsx)\<close>

text \<open>
  \<^verbatim>\<open>
  const getChatId = (uid1, uid2) => {
    if (!uid1 || !uid2) return null;
    return uid1 < uid2 ? `${uid1}_${uid2}` : `${uid2}_${uid1}`;
  };
  \<close>
  A user identifier is a string or \<open>undefined\<close> (\<open>None\<close>): the first argument is the
  signed-in user's \<open>uid\<close>, the second the route parameter. The empty string is falsy as
  well. The result \<open>null\<close> is \<open>None\<close>.
\<close>

definition getChatId :: "jsstring option \<Rightarrow> jsstring option \<Rightarrow> jsstring option" where
  "getChatId uid1 uid2 =
     (case (uid1, uid2) of
        (Some a, Some b) \<Rightarrow>
          if a = [] \<or> b = [] then None
          else if a < b then Some (a @ lit ''_'' @ b) else Some (b @ lit ''_'' @ a)
      | _ \<Rightarrow> None)"

section \<open>Vocabulary of the properties\<close>

text \<open>An integer between 0 and 100.\<close>

fun isScore :: "jsnum \<Rightarrow> bool" where
  "isScore (Fin a) = (of_int \<lfloor>a\<rfloor> = a \<and> 0 \<le> a \<and> a \<le> 100)"
| "isScore _ = False"

text \<open>The call returns, and returns an integer between 0 and 100.\<close>

fun returnsScore :: "error + jsnum \<Rightarrow> bool" where
  "returnsScore (Inr n) = isScore n"
| "returnsScore (Inl e) = False"

text \<open>
  A budget is missing when the property is \<open>undefined\<close>, \<open>null\<close>, \<open>false\<close> or the
  empty string, and not a valid number when \<open>Number\<close> makes NaN of it.
\<close>

definition missingOrInvalid :: "engine \<Rightarrow> jsval \<Rightarrow> bool" where
  "missingOrInvalid E v =
     (v = JUndefined \<or> v = JNull \<or> v = JBool False \<or> v = JStr [] \<or> ToNumber E v = Inr NaN)"

text \<open>A list entry that is an empty or white-space-only string.\<close>

fun blankString :: "jsval \<Rightarrow> bool" where
  "blankString (JStr s) = list_all isWhiteSpace s"
| "blankString _ = False"

text \<open>
  Every entry of \<open>xs\<close> equals some entry of \<open>ys\<close> when both are trimmed and
  lower-cased.
\<close>

definition sharesEvery :: "engine \<Rightarrow> jsval list \<Rightarrow> jsval list \<Rightarrow> bool" where
  "sharesEvery E xs ys = list_all (\<lambda>x. normalizeEntry E x \<in> normalizeEntry E ` set ys) xs"

text \<open>Some entry of \<open>xs\<close> is not empty when trimmed and lower-cased.\<close>

definition someNonBlank :: "engine \<Rightarrow> jsval list \<Rightarrow> bool" where
  "someNonBlank E xs = list_ex (\<lambda>x. returns (normalizeEntry E x) \<and> normalizeEntry E x \<noteq> Inr []) xs"

text \<open>
  The number in the \<open>matchScore\<close> property of a ranked entry, and an array in
  descending order of it: \<open>a.matchScore >= b.matchScore\<close> whenever \<open>a\<close> stands before
  \<open>b\<close>.
\<close>

definition matchScoreOf :: "jsobject \<Rightarrow> jsnum" where
  "matchScoreOf p = (case p ''matchScore'' of JNum n \<Rightarrow> n | _ \<Rightarrow> NaN)"

definition descending :: "jsobject list \<Rightarrow> bool" where
  "descending ps = sorted_wrt (\<lambda>a b. js_le (matchScoreOf b) (matchScoreOf a)) ps"

text \<open>The value of a finite \<open>matchScore\<close>.\<close>

definition scoreValue :: "jsobject \<Rightarrow> rat" where
  "scoreValue p = (case matchScoreOf p of Fin a \<Rightarrow> a | _ \<Rightarrow> 0)"

text \<open>An entry whose \<open>matchScore\<close> is a finite number.\<close>

definition scored :: "jsobject \<Rightarrow> bool" where
  "scored p = (\<exists>a. p ''matchScore'' = JNum (Fin a))"

text \<open>The result of \<open>toNumber\<close> is \<open>null\<close> or a finite number.\<close>

fun finiteOrAbsent :: "error + jsnum option \<Rightarrow> bool" where
  "finiteOrAbsent (Inr None) = True"
| "finiteOrAbsent (Inr (Some (Fin a))) = True"
| "finiteOrAbsent _ = False"

subsection \<open>Example inputs\<close>

text \<open>An object literal \<open>{k1: v1, k2: v2, ...}\<close>; a later entry overwrites an earlier one.\<close>

definition object :: "(string \<times> jsval) list \<Rightarrow> jsobject" where
  "object kvs = foldl (\<lambda>f (k, v). f(k := v)) (\<lambda>k. JUndefined) kvs"

text \<open>
  An engine for the examples. Its conversions agree with those of a real engine on
  strings of decimal digits (with surrounding white space), on non-negative integers and
  the special values, and on ASCII text; the examples use them on nothing else.
\<close>

definition isDigit :: "16 word \<Rightarrow> bool" where
  "isDigit c = (0x30 \<le> c \<and> c \<le> 0x39)"

definition decimalValue :: "jsstring \<Rightarrow> jsnum" where
  "decimalValue s =
     (let t = trim s
      in if t = [] then Fin 0
         else if list_all isDigit t
           then Fin (of_nat (foldl (\<lambda>a c. 10 * a + unat (c - 0x30)) 0 t))
         else NaN)"

fun natText :: "nat \<Rightarrow> jsstring" where
  "natText n =
     (if n < 10 then [of_nat n + 0x30] else natText (n div 10) @ [of_nat (n mod 10) + 0x30])"

fun decimalText :: "jsnum \<Rightarrow> jsstring" where
  "decimalText NaN = lit ''NaN''"
| "decimalText PosInf = lit ''Infinity''"
| "decimalText NegInf = lit ''-Infinity''"
| "decimalText (Fin q) = (if 0 \<le> q \<and> of_int \<lfloor>q\<rfloor> = q then natText (nat \<lfloor>q\<rfloor>) else [])"

definition asciiLower :: "16 word \<Rightarrow> 16 word" where
  "asciiLower c = (if 0x41 \<le> c \<and> c \<le> 0x5A then c + 0x20 else c)"

definition asciiEngine :: engine where
  "asciiEngine =
     \<lparr>StringToNumber = decimalValue, NumberToString = decimalText,
      lowerCaseMapping = map asciiLower\<rparr>"

section \<open>Auxiliary facts\<close>

lemmas score_defs =
  calculateMatchScore_def budgetPoints_def neighborhoodPoints_def preferencePoints_def
  asArrayOfLowercase_def toNumber_def object_def Let_def Math_max_def Math_min_def
  normalizeEntry_def toLowerCase_def trim_def isWhiteSpace_def lit_def floor_eq_iff
  hasOwnProperty_def

lemmas engine_defs = asciiEngine_def asciiLower_def decimalValue_def isDigit_def

lemmas rank_defs =
  rankProfilesWithMatchScore_def withMatchScore_def byMatchScore_def
  matchScoreOf_def descending_def

lemma andThen_Inr_iff: "andThen r f = Inr y \<longleftrightarrow> (\<exists>x. r = Inr x \<and> f x = Inr y)"
  by (cases r) simp_all

lemma returns_iff: "returns r \<longleftrightarrow> (\<exists>x. r = Inr x)"
  by (cases r) simp_all

lemma returns_andThen: "returns (andThen r f) \<longleftrightarrow> (\<exists>x. r = Inr x \<and> returns (f x))"
  by (cases r) simp_all

lemma mapArray_Inr: "mapArray f xs = Inr ys \<Longrightarrow> list_all2 (\<lambda>x y. f x = Inr y) xs ys"
  by (induction xs arbitrary: ys) (auto simp: andThen_Inr_iff)

lemma mapArray_all_Inr:
  "list_all2 (\<lambda>x y. f x = Inr y) xs ys \<Longrightarrow> mapArray f xs = Inr ys"
  by (induction xs ys rule: list_all2_induct) simp_all

lemma clamp_isScore:
  "x \<noteq> NaN \<Longrightarrow> isScore (Math_max (Fin 0) (Math_min (Fin 100) (Math_round x)))"
proof (cases x)
  case (Fin a)
  have "0 \<le> (of_int \<lfloor>a + 1 / 2\<rfloor> :: rat) \<or> (of_int \<lfloor>a + 1 / 2\<rfloor> :: rat) < 0"
    by linarith
  then show ?thesis using Fin
    by (auto simp: Math_max_def Math_min_def)
qed (simp_all add: Math_max_def Math_min_def)

lemma overlap_ratio:
  assumes "xs \<noteq> []"
  shows "\<exists>q. Math_min (js_div (Fin (of_nat (length (filter P xs)))) (Fin (of_nat (length xs))))
               (Fin 1) = Fin q \<and> 0 \<le> q \<and> q \<le> 1"
proof -
  let ?r = "(of_nat (length (filter P xs)) :: rat) / of_nat (length xs)"
  have n: "(of_nat (length xs) :: rat) \<noteq> 0" using assms by simp
  have "0 \<le> ?r" by simp
  moreover have "?r \<le> 1" using assms
    by (simp add: divide_le_eq_1)
  ultimately show ?thesis using n by (auto simp: Math_min_def)
qed

lemma neighborhoodPoints_finite:
  assumes "neighborhoodPoints E me other = Inr n"
  shows "\<exists>q. n = Fin q \<and> 0 \<le> q \<and> q \<le> 35"
proof -
  obtain my their where
    my: "asArrayOfLowercase E (me ''neighborhoods'') = Inr my" and
    their: "asArrayOfLowercase E (other ''neighborhoods'') = Inr their" and
    n: "n = (if length my > 0 \<and> length their > 0 then
               js_mul (Math_min (js_div (Fin (of_nat (length (filter (\<lambda>n. n \<in> set their) my))))
                   (Fin (of_nat (length my)))) (Fin 1)) (Fin 35)
             else Fin 18)"
    using assms by (auto simp: neighborhoodPoints_def andThen_Inr_iff Let_def)
  show ?thesis
  proof (cases "my \<noteq> [] \<and> their \<noteq> []")
    case True
    then obtain q where
      "Math_min (js_div (Fin (of_nat (length (filter (\<lambda>n. n \<in> set their) my))))
         (Fin (of_nat (length my)))) (Fin 1) = Fin q" "0 \<le> q" "q \<le> 1"
      using overlap_ratio by blast
    then show ?thesis using True n by simp
  next
    case False
    then show ?thesis using n by auto
  qed
qed

lemma preferencePoints_finite:
  assumes "preferencePoints E me other = Inr n"
  shows "\<exists>q. n = Fin q \<and> 0 \<le> q \<and> q \<le> 25"
proof -
  obtain my their where
    my: "asArrayOfLowercase E (me ''roommatePreferences'') = Inr my" and
    their: "asArrayOfLowercase E (other ''roommatePreferences'') = Inr their" and
    n: "n = (if length my > 0 \<and> length their > 0 then
               js_mul (Math_min (js_div (Fin (of_nat (length (filter (\<lambda>n. n \<in> set their) my))))
                   (Fin (of_nat (length my)))) (Fin 1)) (Fin 25)
             else Fin 12)"
    using assms by (auto simp: preferencePoints_def andThen_Inr_iff Let_def)
  show ?thesis
  proof (cases "my \<noteq> [] \<and> their \<noteq> []")
    case True
    then obtain q where
      "Math_min (js_div (Fin (of_nat (length (filter (\<lambda>n. n \<in> set their) my))))
         (Fin (of_nat (length my)))) (Fin 1) = Fin q" "0 \<le> q" "q \<le> 1"
      using overlap_ratio by blast
    then show ?thesis using True n by simp
  next
    case False
    then show ?thesis using n by auto
  qed
qed

lemma js_add_Fin_not_NaN: "x \<noteq> NaN \<Longrightarrow> js_add x (Fin q) \<noteq> NaN"
  by (cases x) simp_all

text \<open>A call that returns has run its three blocks.\<close>

lemma score_blocks:
  assumes "calculateMatchScore E me other = Inr s"
  shows "\<exists>b n p. budgetPoints E me other = Inr b \<and> neighborhoodPoints E me other = Inr (Fin n) \<and>
           preferencePoints E me other = Inr (Fin p) \<and>
           s = Math_max (Fin 0) (Math_min (Fin 100)
                 (Math_round (js_add (js_add (js_add (Fin 0) b) (Fin n)) (Fin p))))"
proof -
  obtain b n p where b: "budgetPoints E me other = Inr b"
    and n: "neighborhoodPoints E me other = Inr n"
    and p: "preferencePoints E me other = Inr p"
    and s: "s = Math_max (Fin 0) (Math_min (Fin 100)
                 (Math_round (js_add (js_add (js_add (Fin 0) b) n) p)))"
    using assms by (auto simp: calculateMatchScore_def andThen_Inr_iff Let_def)
  obtain n' p' where "n = Fin n'" "p = Fin p'"
    using neighborhoodPoints_finite [OF n] preferencePoints_finite [OF p] by blast
  then show ?thesis using b n p s by blast
qed

lemma score_isScore:
  assumes "calculateMatchScore E me other = Inr s"
    and "budgetPoints E me other \<noteq> Inr NaN"
  shows "isScore s"
proof -
  obtain b n p where b: "budgetPoints E me other = Inr b"
    and s: "s = Math_max (Fin 0) (Math_min (Fin 100)
                 (Math_round (js_add (js_add (js_add (Fin 0) b) (Fin n)) (Fin p))))"
    using score_blocks [OF assms(1)] by blast
  have "b \<noteq> NaN" using assms(2) b by auto
  then have "js_add (Fin 0) b \<noteq> NaN" by (cases b) simp_all
  then have "js_add (js_add (js_add (Fin 0) b) (Fin n)) (Fin p) \<noteq> NaN"
    by (intro js_add_Fin_not_NaN)
  then show ?thesis unfolding s by (rule clamp_isScore)
qed

lemma score_NaN:
  assumes "calculateMatchScore E me other = Inr s"
    and "budgetPoints E me other = Inr NaN"
  shows "s = NaN"
proof -
  obtain b n p where b: "budgetPoints E me other = Inr b"
    and s: "s = Math_max (Fin 0) (Math_min (Fin 100)
                 (Math_round (js_add (js_add (js_add (Fin 0) b) (Fin n)) (Fin p))))"
    using score_blocks [OF assms(1)] by blast
  then have "b = NaN" using assms(2) by simp
  then show ?thesis using s by (simp add: Math_max_def Math_min_def)
qed

lemma toNumber_None_iff: "toNumber E v = Inr None \<longleftrightarrow> missingOrInvalid E v"
proof (cases v)
  case (JNum n)
  then show ?thesis
    by (cases n) (auto simp: missingOrInvalid_def toNumber_def)
next
  case (JArr xs)
  then show ?thesis
    by (cases "ToNumber E (JArr xs)") (simp_all add: missingOrInvalid_def toNumber_def)
next
  case (JObj fs)
  then show ?thesis
    by (cases "ToNumber E (JObj fs)") (simp_all add: missingOrInvalid_def toNumber_def)
qed (auto simp: missingOrInvalid_def toNumber_def)

lemma trim_blank:
  assumes "list_all isWhiteSpace s"
  shows "trim s = []"
proof -
  have d: "dropWhile isWhiteSpace s = []"
    using assms by (simp add: list_all_iff)
  show ?thesis by (simp only: trim_def d) simp
qed

lemma normalize_blank: "blankString x \<Longrightarrow> normalizeEntry E x = Inr []"
  by (cases x) (simp_all add: normalizeEntry_def toLowerCase_def trim_blank)

lemma mapArray_blank:
  "list_all blankString xs \<Longrightarrow> mapArray (normalizeEntry E) xs = Inr (map (\<lambda>x. []) xs)"
  by (induction xs) (simp_all add: normalize_blank)

lemma asArrayOfLowercase_blank:
  "list_all blankString xs \<Longrightarrow> asArrayOfLowercase E (JArr xs) = Inr []"
  by (simp add: asArrayOfLowercase_def mapArray_blank filter_empty_conv)

lemma asArrayOfLowercase_JArr:
  "asArrayOfLowercase E (JArr xs) = Inr ss \<longleftrightarrow>
     (\<exists>ts. list_all2 (\<lambda>x t. normalizeEntry E x = Inr t) xs ts \<and> ss = filter (\<lambda>s. s \<noteq> []) ts)"
  by (auto simp: asArrayOfLowercase_def andThen_Inr_iff dest: mapArray_Inr intro: mapArray_all_Inr)


subsection \<open>The neutral values\<close>

text \<open>
  Where both budget conversions return, a budget that is missing, not a valid number or
  zero on either side makes the budget block add 20.
\<close>

lemma budgetPoints_neutral:
  assumes "toNumber E (A ''budget'') = Inr x" and "toNumber E (B ''budget'') = Inr y"
    and "x = None \<or> y = None \<or> x = Some (Fin 0) \<or> y = Some (Fin 0)"
  shows "budgetPoints E A B = Inr (Fin 20)"
  using assms by (auto simp: budgetPoints_def split: option.splits)

text \<open>
  Where the conversion of the other list returns, a list of blank entries makes the
  block add its neutral value.
\<close>

lemma neighborhoodPoints_blank:
  assumes "list_all blankString xs" and "A ''neighborhoods'' = JArr xs"
    and "returns (asArrayOfLowercase E (B ''neighborhoods''))"
  shows "neighborhoodPoints E A B = Inr (Fin 18) \<and> neighborhoodPoints E B A = Inr (Fin 18)"
proof -
  obtain their where "asArrayOfLowercase E (B ''neighborhoods'') = Inr their"
    using assms(3) by (auto simp: returns_iff)
  then show ?thesis
    by (simp add: neighborhoodPoints_def assms(2) asArrayOfLowercase_blank [OF assms(1)])
qed

lemma preferencePoints_blank:
  assumes "list_all blankString xs" and "A ''roommatePreferences'' = JArr xs"
    and "returns (asArrayOfLowercase E (B ''roommatePreferences''))"
  shows "preferencePoints E A B = Inr (Fin 12) \<and> preferencePoints E B A = Inr (Fin 12)"
proof -
  obtain their where "asArrayOfLowercase E (B ''roommatePreferences'') = Inr their"
    using assms(3) by (auto simp: returns_iff)
  then show ?thesis
    by (simp add: preferencePoints_def assms(2) asArrayOfLowercase_blank [OF assms(1)])
qed

text \<open>
  A budget that converts to zero and a list of blank entries are treated as a missing
  budget and an absent list are, also where the other profile makes the block throw.
\<close>

lemma zero_like_missing:
  assumes "toNumber E (A ''budget'') = Inr (Some (Fin 0))"
  shows "budgetPoints E A B = budgetPoints E (A(''budget'' := JUndefined)) B \<and>
         budgetPoints E B A = budgetPoints E B (A(''budget'' := JUndefined))"
proof -
  have u: "toNumber E JUndefined = Inr None" by (simp add: toNumber_def)
  show ?thesis
  proof (cases "toNumber E (B ''budget'')")
    case (Inl e)
    then show ?thesis by (simp add: budgetPoints_def assms u)
  next
    case (Inr y)
    show ?thesis
      by (cases y) (simp_all add: budgetPoints_def assms Inr u)
  qed
qed

lemma blank_like_absent:
  assumes "list_all blankString xs" and "A ''neighborhoods'' = JArr xs"
  shows "neighborhoodPoints E A B = neighborhoodPoints E (A(''neighborhoods'' := JUndefined)) B \<and>
         neighborhoodPoints E B A = neighborhoodPoints E B (A(''neighborhoods'' := JUndefined))"
proof -
  have a: "asArrayOfLowercase E (A ''neighborhoods'') = Inr []"
    using asArrayOfLowercase_blank [OF assms(1)] assms(2) by simp
  have u: "asArrayOfLowercase E JUndefined = Inr []"
    by (simp add: asArrayOfLowercase_def)
  show ?thesis
    by (cases "asArrayOfLowercase E (B ''neighborhoods'')")
      (simp_all add: neighborhoodPoints_def a u)
qed

subsection \<open>Finite budgets\<close>

text \<open>
  When both budgets are missing, invalid or finite, every intermediate value of the budget
  block is finite in the exact arithmetic of the model, and a call that returns gives an
  integer between 0 and 100. (In binary64 the product \<open>myBudget * 0.5\<close> underflows to
  zero for the smallest subnormal budget, which the model does not show.)
\<close>

lemma budgetPoints_finite:
  assumes "finiteOrAbsent (toNumber E (me ''budget''))"
    and "finiteOrAbsent (toNumber E (other ''budget''))"
  shows "\<exists>q. budgetPoints E me other = Inr (Fin q)"
proof -
  obtain x where x: "toNumber E (me ''budget'') = Inr x"
    using assms(1) by (cases "toNumber E (me ''budget'')") simp_all
  obtain y where y: "toNumber E (other ''budget'') = Inr y"
    using assms(2) by (cases "toNumber E (other ''budget'')") simp_all
  show ?thesis
  proof (cases x)
    case None
    then show ?thesis by (simp add: budgetPoints_def x y)
  next
    case m: (Some m)
    show ?thesis
    proof (cases y)
      case None
      then show ?thesis by (simp add: budgetPoints_def x y m)
    next
      case t: (Some t)
      obtain a where a: "m = Fin a" using assms(1) x m by (cases m) simp_all
      obtain b where b: "t = Fin b" using assms(2) y t by (cases t) simp_all
      show ?thesis
        by (simp add: budgetPoints_def x y m t a b Let_def Math_max_def)
    qed
  qed
qed

lemma score_isScore_finite_budgets:
  assumes "finiteOrAbsent (toNumber E (me ''budget''))"
    and "finiteOrAbsent (toNumber E (other ''budget''))"
    and "returns (calculateMatchScore E me other)"
  shows "returnsScore (calculateMatchScore E me other)"
proof -
  obtain q where q: "budgetPoints E me other = Inr (Fin q)"
    using budgetPoints_finite [of E me other] assms(1,2) by blast
  obtain s where s: "calculateMatchScore E me other = Inr s"
    using assms(3) by (auto simp: returns_iff)
  then have "isScore s" using q by (intro score_isScore [of E me other]) simp_all
  then show ?thesis by (simp add: s)
qed

lemma equal_finite_budgets_40:
  assumes "toNumber E (A ''budget'') = Inr (Some (Fin x))"
    and "toNumber E (B ''budget'') = Inr (Some (Fin x))"
    and "x \<noteq> 0"
  shows "budgetPoints E A B = Inr (Fin 40)"
  using assms by (simp add: budgetPoints_def Let_def Math_max_def)

subsection \<open>The ranking is a stable sort by descending score\<close>

text \<open>
  A ranking that returns holds the scored candidates, in some order. When no score is NaN
  the comparator is consistent, the model of \<open>sort\<close> agrees with the library's stable
  insertion sort on the negated score, and the result is in descending order with ties
  in input order.
\<close>

lemma mset_insert_by: "insert_by cmp x ys = Inr zs \<Longrightarrow> mset zs = add_mset x (mset ys)"
  by (induction ys arbitrary: zs) (auto simp: andThen_Inr_iff split: if_splits)

lemma mset_Array_sort: "Array_sort cmp xs = Inr ys \<Longrightarrow> mset ys = mset xs"
  by (induction xs arbitrary: ys) (auto simp: andThen_Inr_iff dest: mset_insert_by)

lemma rank_entries:
  assumes "rankProfilesWithMatchScore E v cs = Inr ps"
  shows "\<exists>qs. list_all2 (\<lambda>c q. withMatchScore E v c = Inr q) cs qs \<and> mset ps = mset qs"
  using assms
  by (auto simp: rankProfilesWithMatchScore_def andThen_Inr_iff
      dest: mapArray_Inr mset_Array_sort)

lemma rank_length:
  assumes "rankProfilesWithMatchScore E v cs = Inr ps"
  shows "length ps = length cs"
proof -
  obtain qs where "list_all2 (\<lambda>c q. withMatchScore E v c = Inr q) cs qs" "mset ps = mset qs"
    using rank_entries [OF assms] by blast
  then show ?thesis
    by (metis list_all2_lengthD size_mset)
qed

lemma withMatchScore_Inr:
  assumes "withMatchScore E v c = Inr q"
  shows "\<exists>s. calculateMatchScore E v c = Inr s \<and> q = c(''matchScore'' := JNum s) \<and>
             matchScoreOf q = s"
  using assms by (auto simp: withMatchScore_def andThen_Inr_iff matchScoreOf_def)

lemma byMatchScore_scored:
  assumes "a ''matchScore'' = JNum x" and "b ''matchScore'' = JNum y"
  shows "byMatchScore E a b = Inr (js_sub y x)"
  by (simp add: byMatchScore_def assms)

lemma insert_by_insort_key:
  assumes "\<forall>y\<in>set (x # ys). scored y"
  shows "insert_by (byMatchScore E) x ys = Inr (insort_key (\<lambda>p. - scoreValue p) x ys)"
  using assms
proof (induction ys)
  case Nil
  then show ?case by simp
next
  case (Cons y ys)
  obtain a b where ab: "x ''matchScore'' = JNum (Fin a)" "y ''matchScore'' = JNum (Fin b)"
    using Cons.prems by (auto simp: scored_def)
  have ih: "insert_by (byMatchScore E) x ys = Inr (insort_key (\<lambda>p. - scoreValue p) x ys)"
    using Cons by simp
  have cmp: "byMatchScore E x y = Inr (Fin (b - a))"
    using ab by (simp add: byMatchScore_def)
  have key: "(scoreValue y \<le> scoreValue x) = (b \<le> a)"
    using ab by (simp add: scoreValue_def matchScoreOf_def)
  show ?case
    by (simp add: ih cmp key not_less)
qed

lemma Array_sort_sort_key:
  assumes "\<forall>y\<in>set ps. scored y"
  shows "Array_sort (byMatchScore E) ps = Inr (sort_key (\<lambda>p. - scoreValue p) ps)"
  using assms
proof (induction ps)
  case Nil
  then show ?case by simp
next
  case (Cons x ps)
  have ih: "Array_sort (byMatchScore E) ps = Inr (sort_key (\<lambda>p. - scoreValue p) ps)"
    using Cons by simp
  have "insert_by (byMatchScore E) x (sort_key (\<lambda>p. - scoreValue p) ps) =
        Inr (insort_key (\<lambda>p. - scoreValue p) x (sort_key (\<lambda>p. - scoreValue p) ps))"
    using Cons.prems by (intro insert_by_insort_key) simp
  then show ?case by (simp add: ih)
qed

lemma scored_candidates:
  assumes "mapArray (withMatchScore E v) cs = Inr qs"
    and "\<forall>c\<in>set cs. calculateMatchScore E v c \<noteq> Inr NaN"
  shows "\<forall>q\<in>set qs. scored q"
proof
  fix q assume "q \<in> set qs"
  then obtain i where i: "i < length qs" "qs ! i = q"
    by (auto simp: in_set_conv_nth)
  have all: "list_all2 (\<lambda>c q. withMatchScore E v c = Inr q) cs qs"
    using mapArray_Inr [OF assms(1)] .
  then have "length cs = length qs" "withMatchScore E v (cs ! i) = Inr (qs ! i)"
    using i(1) by (simp_all add: list_all2_conv_all_nth)
  then obtain c where c: "c \<in> set cs" "withMatchScore E v c = Inr q"
    using i by (metis nth_mem)
  then obtain s where s: "calculateMatchScore E v c = Inr s" "q ''matchScore'' = JNum s"
    by (auto simp: withMatchScore_def andThen_Inr_iff)
  have "s \<noteq> NaN" using assms(2) c(1) s(1) by auto
  then have "isScore s"
    using s(1) score_NaN [of E v c s] score_isScore [of E v c s] by blast
  then show "scored q" using s(2) by (cases s) (simp_all add: scored_def)
qed

lemma rank_sort_key:
  assumes "mapArray (withMatchScore E v) cs = Inr qs"
    and "\<forall>c\<in>set cs. calculateMatchScore E v c \<noteq> Inr NaN"
  shows "rankProfilesWithMatchScore E v cs = Inr (sort_key (\<lambda>p. - scoreValue p) qs)"
  using Array_sort_sort_key [OF scored_candidates [OF assms]]
  by (simp add: rankProfilesWithMatchScore_def assms(1))

lemma rank_descending:
  assumes "rankProfilesWithMatchScore E v cs = Inr ps"
    and "\<forall>c\<in>set cs. calculateMatchScore E v c \<noteq> Inr NaN"
  shows "descending ps"
proof -
  let ?f = "\<lambda>p. - scoreValue p"
  obtain qs where qs: "mapArray (withMatchScore E v) cs = Inr qs"
    using assms(1) by (auto simp: rankProfilesWithMatchScore_def andThen_Inr_iff)
  have ps: "ps = sort_key ?f qs"
    using rank_sort_key [OF qs assms(2)] assms(1) by simp
  have fin: "\<forall>q\<in>set (sort_key ?f qs). scored q"
    using scored_candidates [OF qs assms(2)] by simp
  have "sorted_wrt (\<lambda>a b. ?f a \<le> ?f b) (sort_key ?f qs)"
    using sorted_sort_key [of ?f qs] by (simp add: sorted_map)
  then have "sorted_wrt (\<lambda>a b. js_le (matchScoreOf b) (matchScoreOf a)) (sort_key ?f qs)"
  proof (rule sorted_wrt_mono_rel [rotated])
    fix p r
    assume p: "p \<in> set (sort_key ?f qs)" and r: "r \<in> set (sort_key ?f qs)"
      and le: "?f p \<le> ?f r"
    have "scored p" "scored r" using fin p r by blast+
    then obtain x y where "p ''matchScore'' = JNum (Fin x)" "r ''matchScore'' = JNum (Fin y)"
      unfolding scored_def by blast
    then show "js_le (matchScoreOf r) (matchScoreOf p)"
      using le by (simp add: scoreValue_def matchScoreOf_def)
  qed
  then show ?thesis by (simp add: descending_def ps)
qed

lemma rank_stable:
  assumes "rankProfilesWithMatchScore E v cs = Inr ps"
    and "mapArray (withMatchScore E v) cs = Inr qs"
    and "\<forall>c\<in>set cs. calculateMatchScore E v c \<noteq> Inr NaN"
  shows "filter (\<lambda>p. matchScoreOf p = k) ps = filter (\<lambda>p. matchScoreOf p = k) qs"
proof -
  let ?f = "\<lambda>p. - scoreValue p"
  have ps: "ps = sort_key ?f qs"
    using rank_sort_key [OF assms(2,3)] assms(1) by simp
  have fin: "\<forall>q\<in>set qs. \<exists>a. matchScoreOf q = Fin a"
    using scored_candidates [OF assms(2,3)] by (auto simp: scored_def matchScoreOf_def)
  show ?thesis
  proof (cases "\<exists>a. k = Fin a")
    case True
    then obtain a where k: "k = Fin a" by blast
    have 1: "filter (\<lambda>p. matchScoreOf p = k) (sort_key ?f qs) =
             filter (\<lambda>p. ?f p = - a) (sort_key ?f qs)"
      using fin k by (intro filter_cong) (auto simp: scoreValue_def)
    have 2: "filter (\<lambda>p. matchScoreOf p = k) qs = filter (\<lambda>p. ?f p = - a) qs"
      using fin k by (intro filter_cong) (auto simp: scoreValue_def)
    show ?thesis
      unfolding ps 1 2 by (rule sort_key_stable)
  next
    case False
    then have "filter (\<lambda>p. matchScoreOf p = k) (sort_key ?f qs) = []"
      "filter (\<lambda>p. matchScoreOf p = k) qs = []"
      using fin by (auto simp: filter_empty_conv)
    then show ?thesis by (simp add: ps)
  qed
qed


lemma list_all2_Inr_set:
  "list_all2 (\<lambda>x t. f x = Inr t) xs ts \<Longrightarrow> Inr ` set ts = f ` set xs"
  by (induction xs ts rule: list_all2_induct) auto

lemma full_overlap_block:
  assumes my: "asArrayOfLowercase E (JArr xs) = Inr my"
    and their: "asArrayOfLowercase E (JArr ys) = Inr their"
    and nb: "someNonBlank E xs" and sh: "sharesEvery E xs ys"
  shows "my \<noteq> [] \<and> set my \<subseteq> set their"
proof -
  obtain ts where ts2: "list_all2 (\<lambda>x t. normalizeEntry E x = Inr t) xs ts"
    and my': "my = filter (\<lambda>s. s \<noteq> []) ts"
    using my by (auto simp: asArrayOfLowercase_JArr)
  obtain us where us2: "list_all2 (\<lambda>x t. normalizeEntry E x = Inr t) ys us"
    and their': "their = filter (\<lambda>s. s \<noteq> []) us"
    using their by (auto simp: asArrayOfLowercase_JArr)
  have ts: "Inr ` set ts = normalizeEntry E ` set xs"
    using ts2 by (rule list_all2_Inr_set)
  have us: "Inr ` set us = normalizeEntry E ` set ys"
    using us2 by (rule list_all2_Inr_set)
  obtain x t where xt: "x \<in> set xs" "normalizeEntry E x = Inr t" "t \<noteq> []"
    using nb by (auto simp: someNonBlank_def list_ex_iff returns_iff)
  have "normalizeEntry E x \<in> normalizeEntry E ` set xs"
    using xt(1) by (rule imageI)
  then have "Inr t \<in> (Inr ` set ts :: (error + jsstring) set)"
    using ts xt(2) by simp
  then have "t \<in> set ts" by auto
  then have ne: "my \<noteq> []" using xt(3) my' by (auto simp: filter_empty_conv)
  have "set my \<subseteq> set their"
  proof
    fix m assume "m \<in> set my"
    then have m: "m \<in> set ts" "m \<noteq> []" using my' by auto
    then have "Inr m \<in> (Inr ` set ts :: (error + jsstring) set)" by simp
    then have "Inr m \<in> normalizeEntry E ` set xs" using ts by simp
    then obtain x' where x': "x' \<in> set xs" "normalizeEntry E x' = Inr m"
      by auto
    have "normalizeEntry E x' \<in> normalizeEntry E ` set ys"
      using sh x'(1) by (simp add: sharesEvery_def list_all_iff)
    then have "Inr m \<in> normalizeEntry E ` set ys"
      using x'(2) by simp
    then have "Inr m \<in> (Inr ` set us :: (error + jsstring) set)" using us by simp
    then have "m \<in> set us" by auto
    then show "m \<in> set their" using m(2) their' by simp
  qed
  then show ?thesis using ne by simp
qed

section \<open>The claims\<close>

subsection \<open>The score is an integer between 0 and 100\<close>

text \<open>
  Claim C1: for every viewer and candidate, \<open>calculateMatchScore\<close> returns an integer
  in the closed interval from 0 to 100. The code does not: \<open>toNumber\<close> rejects NaN but
  lets an infinite budget through, the budget block then computes
  \<open>Infinity - Infinity\<close>, and NaN passes \<open>Math.round\<close>, \<open>Math.min\<close> and
  \<open>Math.max\<close> unchanged. For two profiles whose budget is \<open>Infinity\<close> the result
  is NaN.
\<close>

theorem score_NaN_at_infinite_budgets:
  "toNumber E (object [(''budget'', JNum PosInf)] ''budget'') = Inr (Some PosInf) \<and>
   calculateMatchScore E (object [(''budget'', JNum PosInf)]) (object [(''budget'', JNum PosInf)]) =
     Inr NaN \<and>
   \<not> returnsScore (calculateMatchScore E (object [(''budget'', JNum PosInf)])
       (object [(''budget'', JNum PosInf)]))"
  by (simp add: score_defs)

subsection \<open>Ranking\<close>

text \<open>
  Claim C2: \<open>rankProfilesWithMatchScore\<close> returns the candidates, each with its
  \<open>matchScore\<close>, in non-increasing order of \<open>matchScore\<close>, ties in input order.
  With the viewer and the first candidate at budget \<open>Infinity\<close> and a second candidate
  without a budget, the ranking returns with the scores NaN and 50: the comparator
  returns NaN, the array is left as it is, and neither this order nor the other one is
  non-increasing.
\<close>

theorem ranking_not_descending:
  "andThen (rankProfilesWithMatchScore E (object [(''budget'', JNum PosInf)])
        [object [(''budget'', JNum PosInf)], object []]) (\<lambda>ps. Inr (map matchScoreOf ps)) =
     Inr [NaN, Fin 50] \<and>
   (case rankProfilesWithMatchScore E (object [(''budget'', JNum PosInf)])
        [object [(''budget'', JNum PosInf)], object []] of
      Inr ps \<Rightarrow> \<not> descending ps \<and> \<not> descending (rev ps)
    | Inl e \<Rightarrow> False)"
  by (simp add: score_defs rank_defs)

subsection \<open>Missing and invalid budgets\<close>

text \<open>
  Claim C3: if the budget of \<open>A\<close> or of \<open>B\<close> is missing or not a valid number,
  the budget block adds exactly 20, whatever the other budget is, and no fault is
  raised: a score is still produced. The code does raise one: \<open>toNumber\<close> is called
  on both budgets before either result is looked at, and \<open>Number\<close> throws a
  TypeError on a map with an own \<open>toString\<close> property. With no budget on one side
  and such a map on the other, the block and the call throw. Where both conversions
  return, the block adds 20 (lemmas \<open>toNumber_None_iff\<close> and
  \<open>budgetPoints_neutral\<close>).
\<close>

theorem missing_budget_throws:
  "missingOrInvalid E (object [] ''budget'') \<and>
   budgetPoints E (object [])
     (object [(''budget'', JObj [(''toString'', JNum (Fin 1))])]) = Inl TypeError \<and>
   calculateMatchScore E (object [])
     (object [(''budget'', JObj [(''toString'', JNum (Fin 1))])]) = Inl TypeError"
  by (simp add: missingOrInvalid_def score_defs)

subsection \<open>Neighborhoods shared in full\<close>

text \<open>
  Claim C4: for profiles with non-empty neighborhoods lists, if every entry of
  \<open>A\<close>'s list is also in \<open>B\<close>'s list, compared after trimming and lower-casing,
  the neighborhoods block adds exactly 35. As stated this fails when all entries of
  \<open>A\<close>'s list are blank: \<open>asArrayOfLowercase\<close> filters them out and the block adds
  the neutral 18. It also fails where the call throws, as it does when a list holds a map
  with an own \<open>toString\<close> property. It holds whenever the call returns and one
  entry of \<open>A\<close>'s list is not blank.
\<close>

theorem full_overlap_35:
  assumes "returns (calculateMatchScore E A B)"
    and "A ''neighborhoods'' = JArr xs" and "B ''neighborhoods'' = JArr ys"
    and "someNonBlank E xs"
    and "sharesEvery E xs ys"
  shows "neighborhoodPoints E A B = Inr (Fin 35)"
proof -
  obtain s where "calculateMatchScore E A B = Inr s"
    using assms(1) by (auto simp: returns_iff)
  then obtain n where "neighborhoodPoints E A B = Inr (Fin n)"
    using score_blocks by blast
  then obtain my their where my: "asArrayOfLowercase E (JArr xs) = Inr my"
    and their: "asArrayOfLowercase E (JArr ys) = Inr their"
    by (auto simp: neighborhoodPoints_def andThen_Inr_iff assms(2,3))
  have ne: "my \<noteq> []" and sub: "set my \<subseteq> set their"
    using full_overlap_block [OF my their assms(4,5)] by simp_all
  then have their_ne: "their \<noteq> []" by auto
  have "filter (\<lambda>n. n \<in> set their) my = my"
    using sub by (auto simp: filter_id_conv)
  then show ?thesis
    using ne their_ne
    by (simp add: neighborhoodPoints_def assms(2,3) my their Let_def Math_min_def)
qed

theorem full_overlap_35_witness:
  "returns (calculateMatchScore asciiEngine
     (object [(''neighborhoods'', JArr [JStr (lit ''Kolej ''), JStr (lit '' '')])])
     (object [(''neighborhoods'', JArr [JStr (lit ''Tunali''), JStr [], JStr (lit '' kolej'')])])) \<and>
   someNonBlank asciiEngine [JStr (lit ''Kolej ''), JStr (lit '' '')] \<and>
   sharesEvery asciiEngine [JStr (lit ''Kolej ''), JStr (lit '' '')]
     [JStr (lit ''Tunali''), JStr [], JStr (lit '' kolej'')] \<and>
   neighborhoodPoints asciiEngine
     (object [(''neighborhoods'', JArr [JStr (lit ''Kolej ''), JStr (lit '' '')])])
     (object [(''neighborhoods'', JArr [JStr (lit ''Tunali''), JStr [], JStr (lit '' kolej'')])]) =
     Inr (Fin 35)"
  using full_overlap_35 [of asciiEngine
      "object [(''neighborhoods'', JArr [JStr (lit ''Kolej ''), JStr (lit '' '')])]"
      "object [(''neighborhoods'', JArr [JStr (lit ''Tunali''), JStr [], JStr (lit '' kolej'')])]"
      "[JStr (lit ''Kolej ''), JStr (lit '' '')]"
      "[JStr (lit ''Tunali''), JStr [], JStr (lit '' kolej'')]"]
  by (simp add: sharesEvery_def someNonBlank_def score_defs engine_defs)

theorem full_overlap_35_counterexample:
  "[JStr (lit ''  '')] \<noteq> [] \<and> [JStr (lit '' '')] \<noteq> [] \<and>
   sharesEvery asciiEngine [JStr (lit ''  '')] [JStr (lit '' '')] \<and>
   neighborhoodPoints asciiEngine
     (object [(''neighborhoods'', JArr [JStr (lit ''  '')])])
     (object [(''neighborhoods'', JArr [JStr (lit '' '')])]) = Inr (Fin 18) \<and>
   sharesEvery asciiEngine [JStr (lit ''a'')]
     [JStr (lit ''a''), JObj [(''toString'', JNum (Fin 1))]] \<and>
   neighborhoodPoints asciiEngine
     (object [(''neighborhoods'', JArr [JStr (lit ''a'')])])
     (object [(''neighborhoods'',
        JArr [JStr (lit ''a''), JObj [(''toString'', JNum (Fin 1))]])]) = Inl TypeError \<and>
   calculateMatchScore asciiEngine
     (object [(''neighborhoods'', JArr [JStr (lit ''a'')])])
     (object [(''neighborhoods'',
        JArr [JStr (lit ''a''), JObj [(''toString'', JNum (Fin 1))]])]) = Inl TypeError"
  by (simp add: sharesEvery_def score_defs engine_defs)

subsection \<open>Equal budgets\<close>

text \<open>
  Claim C5: two budgets that are valid non-zero numbers and equal give a budget block of
  exactly 40. \<open>Infinity\<close> is such a number for \<open>toNumber\<close> and for the truthiness
  test, and two budgets of \<open>Infinity\<close> give NaN.
\<close>

theorem equal_infinite_budgets_NaN:
  "toNumber E (object [(''budget'', JNum PosInf)] ''budget'') = Inr (Some PosInf) \<and>
   truthy_num PosInf \<and>
   budgetPoints E (object [(''budget'', JNum PosInf)]) (object [(''budget'', JNum PosInf)]) =
     Inr NaN"
  by (simp add: score_defs)

subsection \<open>Only three fields are read\<close>

text \<open>
  Claim C6: the score depends only on \<open>budget\<close>, \<open>neighborhoods\<close> and
  \<open>roommatePreferences\<close>. Two candidates that agree on these three properties get the
  same result from any viewer (the same score, or an exception in both calls), and two
  viewers that agree on them give any candidate the same result, whatever their other
  properties are.
\<close>

theorem score_depends_on_three_fields:
  assumes "p ''budget'' = q ''budget''"
    and "p ''neighborhoods'' = q ''neighborhoods''"
    and "p ''roommatePreferences'' = q ''roommatePreferences''"
  shows "calculateMatchScore E v p = calculateMatchScore E v q \<and>
         calculateMatchScore E p c = calculateMatchScore E q c"
  using assms
  by (simp add: calculateMatchScore_def budgetPoints_def neighborhoodPoints_def
      preferencePoints_def)

theorem score_depends_on_three_fields_witness:
  "object [(''budget'', JNum (Fin 900)), (''name'', JStr (lit ''Ada'')), (''hasHouse'', JBool True)]
      ''name'' \<noteq>
   object [(''budget'', JNum (Fin 900)), (''name'', JStr (lit ''Bo'')), (''age'', JStr (lit ''21''))]
      ''name'' \<and>
   calculateMatchScore asciiEngine (object [(''budget'', JNum (Fin 1000))])
     (object [(''budget'', JNum (Fin 900)), (''name'', JStr (lit ''Ada'')), (''hasHouse'', JBool True)]) =
   calculateMatchScore asciiEngine (object [(''budget'', JNum (Fin 1000))])
     (object [(''budget'', JNum (Fin 900)), (''name'', JStr (lit ''Bo'')), (''age'', JStr (lit ''21''))]) \<and>
   calculateMatchScore asciiEngine
     (object [(''budget'', JNum (Fin 900)), (''name'', JStr (lit ''Ada'')), (''hasHouse'', JBool True)])
     (object [(''budget'', JNum (Fin 1000))]) =
   calculateMatchScore asciiEngine
     (object [(''budget'', JNum (Fin 900)), (''name'', JStr (lit ''Bo'')), (''age'', JStr (lit ''21''))])
     (object [(''budget'', JNum (Fin 1000))])"
  using score_depends_on_three_fields [of
      "object [(''budget'', JNum (Fin 900)), (''name'', JStr (lit ''Ada'')), (''hasHouse'', JBool True)]"
      "object [(''budget'', JNum (Fin 900)), (''name'', JStr (lit ''Bo'')), (''age'', JStr (lit ''21''))]"
      asciiEngine "object [(''budget'', JNum (Fin 1000))]" "object [(''budget'', JNum (Fin 1000))]"]
  by (simp add: object_def lit_def)

subsection \<open>The score is not symmetric\<close>

text \<open>
  Claim C7: there are profiles \<open>A\<close> and \<open>B\<close>, both with valid non-zero budgets,
  whose scores in the two directions differ, because \<open>maxDiff\<close> is computed from
  the viewer's budget only. The profiles with budgets 800 and 1000 score 50 with the
  first as viewer and 54 with the second; the budget block adds 20 and 24, and the other
  two blocks add the same in both directions. The last part of the statement is the
  cause: whenever both budgets are numbers other than zero, the block adds
  \<open>Math.max(0, 1 - |m - t| / (m * 0.5)) * 40\<close>, where \<open>m\<close> is the budget of the
  viewer and \<open>t\<close> that of the candidate.
\<close>

theorem score_asymmetric:
  "toNumber E (object [(''budget'', JNum (Fin 800))] ''budget'') = Inr (Some (Fin 800)) \<and>
   truthy_num (Fin 800) \<and>
   toNumber E (object [(''budget'', JNum (Fin 1000))] ''budget'') = Inr (Some (Fin 1000)) \<and>
   truthy_num (Fin 1000) \<and>
   calculateMatchScore E (object [(''budget'', JNum (Fin 800))])
     (object [(''budget'', JNum (Fin 1000))]) = Inr (Fin 50) \<and>
   calculateMatchScore E (object [(''budget'', JNum (Fin 1000))])
     (object [(''budget'', JNum (Fin 800))]) = Inr (Fin 54) \<and>
   calculateMatchScore E (object [(''budget'', JNum (Fin 800))])
     (object [(''budget'', JNum (Fin 1000))]) \<noteq>
   calculateMatchScore E (object [(''budget'', JNum (Fin 1000))])
     (object [(''budget'', JNum (Fin 800))]) \<and>
   budgetPoints E (object [(''budget'', JNum (Fin 800))])
     (object [(''budget'', JNum (Fin 1000))]) = Inr (Fin 20) \<and>
   budgetPoints E (object [(''budget'', JNum (Fin 1000))])
     (object [(''budget'', JNum (Fin 800))]) = Inr (Fin 24) \<and>
   neighborhoodPoints E (object [(''budget'', JNum (Fin 800))])
     (object [(''budget'', JNum (Fin 1000))]) =
   neighborhoodPoints E (object [(''budget'', JNum (Fin 1000))])
     (object [(''budget'', JNum (Fin 800))]) \<and>
   preferencePoints E (object [(''budget'', JNum (Fin 800))])
     (object [(''budget'', JNum (Fin 1000))]) =
   preferencePoints E (object [(''budget'', JNum (Fin 1000))])
     (object [(''budget'', JNum (Fin 800))]) \<and>
   (\<forall>me other m t.
      toNumber E (me ''budget'') = Inr (Some m) \<and> toNumber E (other ''budget'') = Inr (Some t) \<and>
      truthy_num m \<and> truthy_num t \<longrightarrow>
      budgetPoints E me other =
        Inr (js_mul
          (Math_max (Fin 0)
             (js_sub (Fin 1) (js_div (Math_abs (js_sub m t)) (js_mul m (Fin (1 / 2))))))
          (Fin 40)))"
proof -
  let ?A = "object [(''budget'', JNum (Fin 800))]"
  let ?B = "object [(''budget'', JNum (Fin 1000))]"
  have "toNumber E (?A ''budget'') = Inr (Some (Fin 800))"
    "toNumber E (?B ''budget'') = Inr (Some (Fin 1000))"
    by (simp_all add: toNumber_def object_def)
  moreover have "calculateMatchScore E ?A ?B = Inr (Fin 50)"
    "calculateMatchScore E ?B ?A = Inr (Fin 54)"
    by (simp_all add: score_defs)
  moreover have "budgetPoints E ?A ?B = Inr (Fin 20)" "budgetPoints E ?B ?A = Inr (Fin 24)"
    by (simp_all add: score_defs)
  moreover have "neighborhoodPoints E ?A ?B = Inr (Fin 18)"
    "neighborhoodPoints E ?B ?A = Inr (Fin 18)"
    "preferencePoints E ?A ?B = Inr (Fin 12)" "preferencePoints E ?B ?A = Inr (Fin 12)"
    by (simp_all add: score_defs)
  moreover have "\<forall>me other m t.
      toNumber E (me ''budget'') = Inr (Some m) \<and> toNumber E (other ''budget'') = Inr (Some t) \<and>
      truthy_num m \<and> truthy_num t \<longrightarrow>
      budgetPoints E me other =
        Inr (js_mul
          (Math_max (Fin 0)
             (js_sub (Fin 1) (js_div (Math_abs (js_sub m t)) (js_mul m (Fin (1 / 2))))))
          (Fin 40))"
    by (simp add: budgetPoints_def Let_def)
  ultimately show ?thesis by simp
qed

theorem score_asymmetric_witness:
  "toNumber asciiEngine (object [(''budget'', JNum (Fin 1000))] ''budget'') = Inr (Some (Fin 1000)) \<and>
   toNumber asciiEngine (object [(''budget'', JNum (Fin 800))] ''budget'') = Inr (Some (Fin 800)) \<and>
   truthy_num (Fin 1000) \<and> truthy_num (Fin 800) \<and>
   budgetPoints asciiEngine (object [(''budget'', JNum (Fin 1000))])
     (object [(''budget'', JNum (Fin 800))]) =
     Inr (js_mul
       (Math_max (Fin 0)
          (js_sub (Fin 1)
             (js_div (Math_abs (js_sub (Fin 1000) (Fin 800))) (js_mul (Fin 1000) (Fin (1 / 2))))))
       (Fin 40)) \<and>
   js_mul
     (Math_max (Fin 0)
        (js_sub (Fin 1)
           (js_div (Math_abs (js_sub (Fin 1000) (Fin 800))) (js_mul (Fin 1000) (Fin (1 / 2))))))
     (Fin 40) = Fin 24 \<and>
   js_mul
     (Math_max (Fin 0)
        (js_sub (Fin 1)
           (js_div (Math_abs (js_sub (Fin 800) (Fin 1000))) (js_mul (Fin 800) (Fin (1 / 2))))))
     (Fin 40) = Fin 20"
proof -
  have a: "toNumber asciiEngine (object [(''budget'', JNum (Fin 1000))] ''budget'') =
      Inr (Some (Fin 1000))"
    and b: "toNumber asciiEngine (object [(''budget'', JNum (Fin 800))] ''budget'') =
      Inr (Some (Fin 800))"
    by (simp_all add: toNumber_def object_def)
  have "budgetPoints asciiEngine (object [(''budget'', JNum (Fin 1000))])
     (object [(''budget'', JNum (Fin 800))]) =
     Inr (js_mul
       (Math_max (Fin 0)
          (js_sub (Fin 1)
             (js_div (Math_abs (js_sub (Fin 1000) (Fin 800))) (js_mul (Fin 1000) (Fin (1 / 2))))))
       (Fin 40))"
    using score_asymmetric [of asciiEngine] a b by (simp add: Math_max_def)
  then show ?thesis using a b by (simp add: Math_max_def)
qed

subsection \<open>The chat identifier\<close>

text \<open>
  Claim C8: for non-empty identifiers \<open>a\<close> and \<open>b\<close>, \<open>getChatId(a, b)\<close> equals
  \<open>getChatId(b, a)\<close> and is the smaller identifier, an underscore, and the larger one;
  if an identifier is missing (or empty) the result is \<open>null\<close>.
\<close>

theorem getChatId_symmetric:
  "(a \<noteq> [] \<and> b \<noteq> [] \<longrightarrow>
      getChatId (Some a) (Some b) = getChatId (Some b) (Some a) \<and>
      getChatId (Some a) (Some b) = Some (min a b @ lit ''_'' @ max a b)) \<and>
   (uid1 = None \<or> uid1 = Some [] \<or> uid2 = None \<or> uid2 = Some [] \<longrightarrow>
      getChatId uid1 uid2 = None)"
  by (auto simp: getChatId_def min_def max_def split: option.splits)

theorem getChatId_symmetric_witness:
  "lit ''bob'' \<noteq> [] \<and> lit ''alice'' \<noteq> [] \<and>
   getChatId (Some (lit ''bob'')) (Some (lit ''alice'')) = Some (lit ''alice_bob'') \<and>
   getChatId (Some (lit ''alice'')) (Some (lit ''bob'')) = Some (lit ''alice_bob'') \<and>
   getChatId None (Some (lit ''bob'')) = None"
  using getChatId_symmetric [of "lit ''bob''" "lit ''alice''" None "Some (lit ''bob'')"]
  by (auto simp: lit_def min_def max_def)

subsection \<open>A budget of zero\<close>

text \<open>
  Claim C9: the number 0 is a valid number for \<open>toNumber\<close>, yet for every pair of
  profiles where a budget converts to 0 the budget block adds the neutral 20. The zero
  budget is indeed treated as a missing one is (lemma \<open>zero_like_missing\<close>), and the
  block adds 20 where both conversions return (lemma \<open>budgetPoints_neutral\<close>). But
  the conversion of the other budget runs before the truthiness test, and it throws a
  TypeError on a map with an own \<open>toString\<close> property: for that pair there is no 20.
\<close>

theorem zero_budget_throws:
  "toNumber E (object [(''budget'', JNum (Fin 0))] ''budget'') = Inr (Some (Fin 0)) \<and>
   budgetPoints E (object [(''budget'', JNum (Fin 0))])
     (object [(''budget'', JObj [(''toString'', JNum (Fin 1))])]) = Inl TypeError \<and>
   calculateMatchScore E (object [(''budget'', JNum (Fin 0))])
     (object [(''budget'', JObj [(''toString'', JNum (Fin 1))])]) = Inl TypeError"
  by (simp add: score_defs)

subsection \<open>Blank list entries\<close>

text \<open>
  Claim C10: a list whose entries are all empty or white-space-only strings is treated
  as an absent list, so the neighborhoods block adds 18 and the preferences block adds 12,
  whatever the other profile's list is. The blank list is indeed treated as an absent
  one is (lemmas \<open>asArrayOfLowercase_blank\<close> and \<open>blank_like_absent\<close>), and the
  blocks add 18 and 12 where the conversion of the other list returns (lemmas
  \<open>neighborhoodPoints_blank\<close> and \<open>preferencePoints_blank\<close>). But the other list is
  converted whatever the first one is, and \<open>String\<close> throws a TypeError on an entry
  that is a map with an own \<open>toString\<close> property: for that list there is no 18
  or 12.
\<close>

theorem blank_entries_throw:
  "list_all blankString [JStr (lit '' '')] \<and>
   neighborhoodPoints E
     (object [(''neighborhoods'', JArr [JStr (lit '' '')])])
     (object [(''neighborhoods'', JArr [JObj [(''toString'', JNum (Fin 1))]])]) = Inl TypeError \<and>
   neighborhoodPoints E
     (object [(''neighborhoods'', JArr [JObj [(''toString'', JNum (Fin 1))]])])
     (object [(''neighborhoods'', JArr [JStr (lit '' '')])]) = Inl TypeError \<and>
   preferencePoints E
     (object [(''roommatePreferences'', JArr [JStr (lit '' '')])])
     (object [(''roommatePreferences'', JArr [JObj [(''toString'', JNum (Fin 1))]])]) =
     Inl TypeError \<and>
   calculateMatchScore E
     (object [(''neighborhoods'', JArr [JStr (lit '' '')])])
     (object [(''neighborhoods'', JArr [JObj [(''toString'', JNum (Fin 1))]])]) = Inl TypeError"
  by (simp add: score_defs)

end
